theory Spec2Isabelle
  imports Main "HOL-Library.Multiset"
begin

section \<open>JavaScript values\<close>

text \<open>
  The handlers of \<^verbatim>\<open>server/routes/taskRoutes.js\<close> read the fields of a parsed JSON
  request body and of the parsed reply of the external AI service. Such a field is any
  JSON value, or \<^verbatim>\<open>undefined\<close> when the member is absent. The handlers do no
  arithmetic: a number matters to them only through its truthiness and through the
  comparison \<^verbatim>\<open>> 0\<close>, so a number is represented by an integer of its sign. An
  object lists its own members, each key once.
\<close>

datatype jsval =
    JUndefined
  | JNull
  | JBool bool
  | JNum int
  | JStr string
  | JArr "jsval list"
  | JObj "(string \<times> jsval) list"

text \<open>JavaScript's ToBoolean, as used by \<^verbatim>\<open>!x\<close>, \<^verbatim>\<open>x || y\<close> and \<^verbatim>\<open>x && y\<close>.\<close>

fun truthy :: "jsval \<Rightarrow> bool" where
  "truthy JUndefined = False"
| "truthy JNull = False"
| "truthy (JBool b) = b"
| "truthy (JNum n) = (n \<noteq> 0)"
| "truthy (JStr s) = (s \<noteq> [])"
| "truthy (JArr xs) = True"
| "truthy (JObj kvs) = True"

text \<open>\<^verbatim>\<open>a || b\<close>\<close>

definition jsOr :: "jsval \<Rightarrow> jsval \<Rightarrow> jsval" where
  "jsOr a b = (if truthy a then a else b)"

text \<open>
  \<^verbatim>\<open>req.body\<close> after \<^verbatim>\<open>express.json()\<close>: the members of the parsed object
  (none when the request has no JSON object as its body).
  \<^verbatim>\<open>const { k } = req.body\<close> reads member \<open>k\<close>, \<^verbatim>\<open>undefined\<close> when it is absent.
\<close>

type_synonym body = "(string \<times> jsval) list"

definition field :: "body \<Rightarrow> string \<Rightarrow> jsval" where
  "field b k = (case map_of b k of None \<Rightarrow> JUndefined | Some v \<Rightarrow> v)"

section \<open>The Task collection\<close>

text \<open>
  An ObjectId of the document store; \<open>toString\<close> is its hexadecimal string, the
  \<^verbatim>\<open>task.user.toString()\<close> of the handlers.
\<close>

datatype objectId = ObjectId (toString: string)

text \<open>
  Modelled from the spec: \<^verbatim>\<open>models/Task.js\<close>, the schema of a task document, is not
  among the source files. The spec lists its fields: owner reference (User id), title,
  description, priority, due date (nullable), status, timestamps. \<open>docId\<close> is the
  document's \<^verbatim>\<open>_id\<close>.
\<close>

record task =
  docId :: objectId
  user :: objectId
  title :: jsval
  description :: jsval
  priority :: jsval
  dueDate :: jsval
  status :: jsval
  createdAt :: int
  updatedAt :: int

text \<open>
  What the handlers use of the object-document mapper and of the absent schema, taken
  as parameters: the cast of a string to an ObjectId (\<open>None\<close>: the cast fails), the
  validators that \<^verbatim>\<open>save()\<close> runs on a document, and the schema's defaults for the
  paths that \<^verbatim>\<open>new Task({...})\<close> may leave \<^verbatim>\<open>undefined\<close>. A document keeps the
  field values the handler assigns; a value that the schema cannot cast to the type of
  its path is one that \<open>validate\<close> rejects. The collection is a list of documents,
  and its operations fail in three ways only: a failed cast, a rejected validation, an
  id that is already in use.
\<close>

record orm =
  castObjectId :: "string \<Rightarrow> objectId option"
  validate :: "task \<Rightarrow> bool"
  defaultDescription :: jsval
  defaultPriority :: jsval
  defaultStatus :: jsval

datatype error =
    CastError
  | ValidationError
  | DuplicateKey
  | TypeError
  | SyntaxError
  | FetchError
  | Thrown string

text \<open>\<^verbatim>\<open>err.kind\<close>: only a failed ObjectId cast carries the kind \<^verbatim>\<open>"ObjectId"\<close>.\<close>

fun kind :: "error \<Rightarrow> string option" where
  "kind CastError = Some ''ObjectId''"
| "kind e = None"

text \<open>A schema default replaces \<^verbatim>\<open>undefined\<close> only.\<close>

definition withDefault :: "jsval \<Rightarrow> jsval \<Rightarrow> jsval" where
  "withDefault d v = (if v = JUndefined then d else v)"

text \<open>\<^verbatim>\<open>Task.findById(id)\<close>: casts the id, then looks the document up.\<close>

definition findById :: "orm \<Rightarrow> string \<Rightarrow> task list \<Rightarrow> error + task option" where
  "findById m pid store =
     (case castObjectId m pid of
        None \<Rightarrow> Inl CastError
      | Some i \<Rightarrow> Inr (find (\<lambda>t. docId t = i) store))"

text \<open>\<^verbatim>\<open>Task.find({ user: id })\<close>: casts the id, then filters the collection.\<close>

definition findByUser :: "orm \<Rightarrow> string \<Rightarrow> task list \<Rightarrow> error + task list" where
  "findByUser m uid store =
     (case castObjectId m uid of
        None \<Rightarrow> Inl CastError
      | Some u \<Rightarrow> Inr (filter (\<lambda>t. user t = u) store))"

text \<open>\<^verbatim>\<open>.sort({ createdAt: -1 })\<close>\<close>

definition sortNewestFirst :: "task list \<Rightarrow> task list" where
  "sortNewestFirst ts = sort_key (\<lambda>t. - createdAt t) ts"

text \<open>
  \<^verbatim>\<open>new Task({ user, title, description, priority, dueDate })\<close>: the owner string is cast
  to an ObjectId (a failed cast makes \<^verbatim>\<open>save()\<close> reject the document), defaults fill
  the undefined paths, and the timestamps are the time of the save.
\<close>

definition newTask ::
  "orm \<Rightarrow> objectId \<Rightarrow> int \<Rightarrow> string \<Rightarrow> jsval \<Rightarrow> jsval \<Rightarrow> jsval \<Rightarrow> jsval \<Rightarrow> error + task" where
  "newTask m newId now uid ttl descr prio due =
     (case castObjectId m uid of
        None \<Rightarrow> Inl ValidationError
      | Some u \<Rightarrow> Inr \<lparr> docId = newId, user = u, title = ttl,
                        description = withDefault (defaultDescription m) descr,
                        priority = withDefault (defaultPriority m) prio,
                        dueDate = due,
                        status = withDefault (defaultStatus m) JUndefined,
                        createdAt = now, updatedAt = now \<rparr>)"

text \<open>\<^verbatim>\<open>newTask.save()\<close> of a new document: validate, then insert under a unique id.\<close>

definition saveNew :: "orm \<Rightarrow> task \<Rightarrow> task list \<Rightarrow> error + (task \<times> task list)" where
  "saveNew m t store =
     (if \<not> validate m t then Inl ValidationError
      else if docId t \<in> set (map docId store) then Inl DuplicateKey
      else Inr (t, store @ [t]))"

text \<open>The store's update of the one document that has the id of \<open>t'\<close>.\<close>

fun updateOne :: "task \<Rightarrow> task list \<Rightarrow> task list" where
  "updateOne t' [] = []"
| "updateOne t' (x # xs) = (if docId x = docId t' then t' # xs else x # updateOne t' xs)"

text \<open>
  The timestamp of a save: \<open>updatedAt\<close> becomes the time of the save when the document
  differs from the one that was loaded, and stays when no path was modified.
\<close>

definition touch :: "int \<Rightarrow> task \<Rightarrow> task \<Rightarrow> task" where
  "touch now loaded t = (if t = loaded then t else t\<lparr> updatedAt := now \<rparr>)"

text \<open>
  \<^verbatim>\<open>task.save()\<close> of the document \<open>loaded\<close> after the assignments that made it \<open>t\<close>:
  validate, then write it back.
\<close>

definition saveExisting ::
  "orm \<Rightarrow> int \<Rightarrow> task \<Rightarrow> task \<Rightarrow> task list \<Rightarrow> error + (task \<times> task list)" where
  "saveExisting m now loaded t store =
     (if \<not> validate m t then Inl ValidationError
      else (let t' = touch now loaded t in Inr (t', updateOne t' store)))"

fun removeFirst :: "objectId \<Rightarrow> task list \<Rightarrow> task list" where
  "removeFirst i [] = []"
| "removeFirst i (x # xs) = (if docId x = i then xs else x # removeFirst i xs)"

text \<open>\<^verbatim>\<open>Task.deleteOne({ _id: id })\<close>\<close>

definition deleteOne :: "orm \<Rightarrow> string \<Rightarrow> task list \<Rightarrow> error + task list" where
  "deleteOne m pid store =
     (case castObjectId m pid of
        None \<Rightarrow> Inl CastError
      | Some i \<Rightarrow> Inr (removeFirst i store))"

section \<open>Responses\<close>

datatype details = ErrorMessage error | Text string

datatype resBody =
    Msg string
  | MsgDetails string details
  | TaskBody task
  | TaskList "task list"
  | Suggestions jsval

datatype response = Response (statusCode: nat) (payload: resBody)

text \<open>The tasks a response discloses.\<close>

fun tasksOf :: "response \<Rightarrow> task list" where
  "tasksOf (Response c (TaskBody t)) = [t]"
| "tasksOf (Response c (TaskList ts)) = ts"
| "tasksOf (Response c b) = []"

text \<open>
  An error response: the status is outside the range 200 to 299 and the body carries a
  message.
\<close>

definition isMessage :: "resBody \<Rightarrow> bool" where
  "isMessage p = (case p of Msg s \<Rightarrow> True | MsgDetails s d \<Rightarrow> True | _ \<Rightarrow> False)"


section \<open>The task handlers\<close>

text \<open>
  Every handler takes the authenticated user's id \<open>uid\<close> (\<^verbatim>\<open>req.user.id\<close>, set by the
  auth middleware), the request and the collection, and returns the response and the
  collection after the request.
\<close>

text \<open>
  \<^verbatim>\<open>router.post("/")\<close>. \<open>newId\<close> is the id generated for the new document and
  \<open>now\<close> the time of the save.
\<close>

definition postTask ::
  "orm \<Rightarrow> objectId \<Rightarrow> int \<Rightarrow> string \<Rightarrow> body \<Rightarrow> task list \<Rightarrow> response \<times> task list" where
  "postTask m newId now uid b store =
     (let ttl = field b ''title''; descr = field b ''description'';
          prio = field b ''priority''; due = field b ''dueDate''
      in if \<not> truthy ttl then (Response 400 (Msg ''Task title is required''), store)
         else (case newTask m newId now uid ttl descr prio (jsOr due JNull) of
                 Inl err \<Rightarrow> (Response 500 (Msg ''Server error''), store)
               | Inr doc \<Rightarrow>
                   (case saveNew m doc store of
                      Inl err \<Rightarrow> (Response 500 (Msg ''Server error''), store)
                    | Inr (t, store') \<Rightarrow> (Response 201 (TaskBody t), store'))))"

text \<open>\<^verbatim>\<open>router.get("/")\<close>\<close>

definition getTasks :: "orm \<Rightarrow> string \<Rightarrow> task list \<Rightarrow> response" where
  "getTasks m uid store =
     (case findByUser m uid store of
        Inl err \<Rightarrow> Response 500 (Msg ''Server error'')
      | Inr ts \<Rightarrow> Response 200 (TaskList (sortNewestFirst ts)))"

text \<open>The \<^verbatim>\<open>catch\<close> block shared by the PUT and DELETE handlers.\<close>

definition catchById :: "error \<Rightarrow> response" where
  "catchById err =
     (if kind err = Some ''ObjectId'' then Response 400 (Msg ''Invalid task ID'')
      else Response 500 (Msg ''Server error''))"

text \<open>The field assignments of the PUT handler, in the order of the source.\<close>

definition applyUpdate :: "body \<Rightarrow> task \<Rightarrow> task" where
  "applyUpdate b t =
     (let ttl = field b ''title''; descr = field b ''description'';
          prio = field b ''priority''; due = field b ''dueDate''; st = field b ''status'';
          t1 = t\<lparr> title := jsOr ttl (title t) \<rparr>;
          t2 = t1\<lparr> description := (if descr \<noteq> JUndefined then descr else description t1) \<rparr>;
          t3 = t2\<lparr> priority := jsOr prio (priority t2) \<rparr>;
          t4 = t3\<lparr> dueDate := (if due \<noteq> JUndefined then due else dueDate t3) \<rparr>;
          t5 = t4\<lparr> status := jsOr st (status t4) \<rparr>
      in if due = JStr [] then t5\<lparr> dueDate := JNull \<rparr> else t5)"

text \<open>\<^verbatim>\<open>router.put("/:id")\<close>\<close>

definition putTask ::
  "orm \<Rightarrow> int \<Rightarrow> string \<Rightarrow> string \<Rightarrow> body \<Rightarrow> task list \<Rightarrow> response \<times> task list" where
  "putTask m now uid pid b store =
     (case findById m pid store of
        Inl err \<Rightarrow> (catchById err, store)
      | Inr None \<Rightarrow> (Response 404 (Msg ''Task not found''), store)
      | Inr (Some t) \<Rightarrow>
          if toString (user t) \<noteq> uid then (Response 401 (Msg ''Not authorized''), store)
          else (case saveExisting m now t (applyUpdate b t) store of
                  Inl err \<Rightarrow> (catchById err, store)
                | Inr (t', store') \<Rightarrow> (Response 200 (TaskBody t'), store')))"

text \<open>\<^verbatim>\<open>router.delete("/:id")\<close>\<close>

definition deleteTask :: "orm \<Rightarrow> string \<Rightarrow> string \<Rightarrow> task list \<Rightarrow> response \<times> task list" where
  "deleteTask m uid pid store =
     (case findById m pid store of
        Inl err \<Rightarrow> (catchById err, store)
      | Inr None \<Rightarrow> (Response 404 (Msg ''Task not found''), store)
      | Inr (Some t) \<Rightarrow>
          if toString (user t) \<noteq> uid then (Response 401 (Msg ''Not authorized''), store)
          else (case deleteOne m pid store of
                  Inl err \<Rightarrow> (catchById err, store)
                | Inr store' \<Rightarrow> (Response 200 (Msg ''Task removed''), store')))"

section \<open>The suggestion handler\<close>

text \<open>
  What the handler uses of the JavaScript runtime, as parameters: the JSON text parser
  behind \<^verbatim>\<open>JSON.parse\<close> (\<open>None\<close>: it throws a SyntaxError), the string that a value
  which is not a string converts to (\<open>None\<close>: the conversion throws a TypeError), and
  whether the number that a string converts to is greater than 0.
\<close>

record runtime =
  parseText :: "string \<Rightarrow> jsval option"
  stringOf :: "jsval \<Rightarrow> string option"
  positiveString :: "string \<Rightarrow> bool"

definition bindE :: "error + 'a \<Rightarrow> ('a \<Rightarrow> error + 'b) \<Rightarrow> error + 'b" where
  "bindE x f = (case x of Inl e \<Rightarrow> Inl e | Inr v \<Rightarrow> f v)"

text \<open>ToString, as a template literal and \<^verbatim>\<open>JSON.parse\<close> apply it to their argument.\<close>

fun toStringJs :: "runtime \<Rightarrow> jsval \<Rightarrow> error + string" where
  "toStringJs rt (JStr s) = Inr s"
| "toStringJs rt v = (case stringOf rt v of None \<Rightarrow> Inl TypeError | Some s \<Rightarrow> Inr s)"

text \<open>\<^verbatim>\<open>JSON.parse(v)\<close>\<close>

definition JSON_parse :: "runtime \<Rightarrow> jsval \<Rightarrow> error + jsval" where
  "JSON_parse rt v =
     bindE (toStringJs rt v)
       (\<lambda>s. case parseText rt s of None \<Rightarrow> Inl SyntaxError | Some j \<Rightarrow> Inr j)"

text \<open>\<^verbatim>\<open>Array.isArray(v)\<close>\<close>

fun isArray :: "jsval \<Rightarrow> bool" where
  "isArray (JArr xs) = True"
| "isArray v = False"

text \<open>
  The member read \<^verbatim>\<open>v.k\<close> or \<^verbatim>\<open>v[0]\<close> (key \<^verbatim>\<open>"0"\<close>). Reading a member of
  \<^verbatim>\<open>undefined\<close> or \<^verbatim>\<open>null\<close> throws a TypeError. Strings and arrays have a
  \<^verbatim>\<open>length\<close> and an element \<^verbatim>\<open>0\<close> when they are not empty; the handler reads no
  other index and no inherited member.
\<close>

fun member :: "jsval \<Rightarrow> string \<Rightarrow> error + jsval" where
  "member JUndefined k = Inl TypeError"
| "member JNull k = Inl TypeError"
| "member (JBool b) k = Inr JUndefined"
| "member (JNum n) k = Inr JUndefined"
| "member (JStr s) k =
     Inr (if k = ''length'' then JNum (int (length s))
          else if k = ''0'' then (case s of [] \<Rightarrow> JUndefined | c # cs \<Rightarrow> JStr [c])
          else JUndefined)"
| "member (JArr xs) k =
     Inr (if k = ''length'' then JNum (int (length xs))
          else if k = ''0'' then (case xs of [] \<Rightarrow> JUndefined | x # ys \<Rightarrow> x)
          else JUndefined)"
| "member (JObj kvs) k = Inr (case map_of kvs k of None \<Rightarrow> JUndefined | Some v \<Rightarrow> v)"

text \<open>
  The comparison \<^verbatim>\<open>v > 0\<close>: \<^verbatim>\<open>undefined\<close> converts to NaN and \<^verbatim>\<open>null\<close> to 0,
  \<^verbatim>\<open>true\<close> to 1; an array or object is first converted to a string.
\<close>

fun greaterThan0 :: "runtime \<Rightarrow> jsval \<Rightarrow> error + bool" where
  "greaterThan0 rt JUndefined = Inr False"
| "greaterThan0 rt JNull = Inr False"
| "greaterThan0 rt (JBool b) = Inr b"
| "greaterThan0 rt (JNum n) = Inr (0 < n)"
| "greaterThan0 rt (JStr s) = Inr (positiveString rt s)"
| "greaterThan0 rt v =
     (case stringOf rt v of None \<Rightarrow> Inl TypeError | Some s \<Rightarrow> Inr (positiveString rt s))"

text \<open>
  The guard of the handler on the parsed reply, a chain of \<^verbatim>\<open>&&\<close>: the result is the
  text \<^verbatim>\<open>result.candidates[0].content.parts[0].text\<close> when every conjunct is truthy,
  \<open>None\<close> when one is falsy, and the error when a member read or comparison throws.
\<close>

definition validText :: "runtime \<Rightarrow> jsval \<Rightarrow> error + jsval option" where
  "validText rt result =
     bindE (member result ''candidates'') (\<lambda>c.
       if \<not> truthy c then Inr None else
     bindE (member c ''length'') (\<lambda>n.
     bindE (greaterThan0 rt n) (\<lambda>pos.
       if \<not> pos then Inr None else
     bindE (member c ''0'') (\<lambda>c0.
     bindE (member c0 ''content'') (\<lambda>content.
       if \<not> truthy content then Inr None else
     bindE (member content ''parts'') (\<lambda>parts.
       if \<not> truthy parts then Inr None else
     bindE (member parts ''length'') (\<lambda>pn.
     bindE (greaterThan0 rt pn) (\<lambda>ppos.
       if \<not> ppos then Inr None else
     bindE (member parts ''0'') (\<lambda>p0.
     bindE (member p0 ''text'') (\<lambda>raw.
       if \<not> truthy raw then Inr None else Inr (Some raw)))))))))))"

text \<open>The inner \<^verbatim>\<open>try\<close> block: parse the text, and throw unless it is an array.\<close>

definition parseSuggestions :: "runtime \<Rightarrow> jsval \<Rightarrow> error + jsval" where
  "parseSuggestions rt rawJsonText =
     bindE (JSON_parse rt rawJsonText)
       (\<lambda>s. if \<not> isArray s then Inl (Thrown ''Parsed suggestions are not an array.'') else Inr s)"

text \<open>
  The reply of the external service as node-fetch presents it: the status line, and what
  \<^verbatim>\<open>response.text()\<close> and \<^verbatim>\<open>response.json()\<close> resolve to (\<open>None\<close>: the promise is
  rejected, for \<^verbatim>\<open>json()\<close> also when the body is not JSON).
\<close>

record fetchResponse =
  httpStatus :: nat
  statusText :: string
  bodyText :: "string option"
  bodyJson :: "jsval option"

text \<open>\<^verbatim>\<open>response.ok\<close>: the status is in the range 200 to 299.\<close>

definition ok :: "fetchResponse \<Rightarrow> bool" where
  "ok r = (200 \<le> httpStatus r \<and> httpStatus r \<le> 299)"

datatype outcome = Rejected | Resolved fetchResponse

text \<open>An outbound call: the URL and the prompt of the payload.\<close>

record outbound =
  url :: string
  prompt :: string

text \<open>
  The external service answers the \<open>n\<close>-th call made so far; \<open>fetch\<close> logs each call,
  so the log after a request tells how many calls the handler made.
\<close>

type_synonym service = "nat \<Rightarrow> outbound \<Rightarrow> outcome"

definition fetch :: "service \<Rightarrow> outbound \<Rightarrow> outbound list \<Rightarrow> outcome \<times> outbound list" where
  "fetch svc req sent = (svc (length sent) req, sent @ [req])"

text \<open>\<^verbatim>\<open>process.env.GEMINI_API_KEY || ""\<close>\<close>

definition GEMINI_API_KEY :: "string option \<Rightarrow> string" where
  "GEMINI_API_KEY env = (case env of None \<Rightarrow> [] | Some k \<Rightarrow> if k = [] then [] else k)"

definition apiUrl :: "string \<Rightarrow> string" where
  "apiUrl key =
     ''https://generativelanguage.googleapis.com/v1beta/models/gemini-2.0-flash:generateContent?key=''
     @ key"

definition promptFor :: "string \<Rightarrow> string" where
  \<open>promptFor t =
     ''Given the main task "'' @ t @
     ''", suggest 3-5 concise, actionable subtasks. Respond only with a JSON array of strings, e.g., ["Subtask 1", "Subtask 2"].''\<close>

text \<open>The outer \<^verbatim>\<open>catch\<close> block.\<close>

definition catchSuggest :: "error \<Rightarrow> response" where
  "catchSuggest e =
     Response 500 (MsgDetails ''Server error while fetching AI suggestions.'' (ErrorMessage e))"

text \<open>\<^verbatim>\<open>router.post("/suggest")\<close>\<close>

definition suggest ::
  "runtime \<Rightarrow> service \<Rightarrow> string option \<Rightarrow> body \<Rightarrow> outbound list \<Rightarrow> response \<times> outbound list" where
  "suggest rt svc env b sent =
     (let mainTaskTitle = field b ''mainTaskTitle'' in
      if \<not> truthy mainTaskTitle then
        (Response 400 (Msg ''Main task title is required for suggestions.''), sent)
      else if GEMINI_API_KEY env = [] then
        (Response 500 (Msg ''AI service not configured: GEMINI_API_KEY is missing.''), sent)
      else
        (case toStringJs rt mainTaskTitle of
           Inl e \<Rightarrow> (catchSuggest e, sent)
         | Inr t \<Rightarrow>
            (case fetch svc \<lparr> url = apiUrl (GEMINI_API_KEY env), prompt = promptFor t \<rparr> sent of
               (Rejected, sent') \<Rightarrow> (catchSuggest FetchError, sent')
             | (Resolved r, sent') \<Rightarrow>
                 if \<not> ok r then
                   (case bodyText r of
                      None \<Rightarrow> (catchSuggest FetchError, sent')
                    | Some errorText \<Rightarrow>
                        (Response (httpStatus r)
                           (MsgDetails (''Gemini API error: '' @ statusText r) (Text errorText)),
                         sent'))
                 else
                   (case bodyJson r of
                      None \<Rightarrow> (catchSuggest SyntaxError, sent')
                    | Some result \<Rightarrow>
                       (case validText rt result of
                          Inl e \<Rightarrow> (catchSuggest e, sent')
                        | Inr None \<Rightarrow>
                            (Response 500
                               (Msg ''No valid AI suggestions received from the service.''),
                             sent')
                        | Inr (Some rawJsonText) \<Rightarrow>
                           (case parseSuggestions rt rawJsonText of
                              Inl e \<Rightarrow>
                                (Response 500
                                   (MsgDetails
                                      ''Failed to parse AI suggestions (invalid format from Gemini).''
                                      (ErrorMessage e)),
                                 sent')
                            | Inr suggestions \<Rightarrow>
                                (Response 200 (Suggestions suggestions), sent')))))))"

text \<open>
  The member chain \<^verbatim>\<open>v.k1.k2...\<close> read as one expression: it has a value exactly
  when no read on the way throws.
\<close>

fun path :: "jsval \<Rightarrow> string list \<Rightarrow> error + jsval" where
  "path v [] = Inr v"
| "path v (k # ks) = bindE (member v k) (\<lambda>w. path w ks)"

definition hasText :: "jsval \<Rightarrow> jsval \<Rightarrow> bool" where
  "hasText result raw =
     (path result [''candidates'', ''0'', ''content'', ''parts'', ''0'', ''text''] = Inr raw)"

definition positiveLength :: "runtime \<Rightarrow> jsval \<Rightarrow> string list \<Rightarrow> bool" where
  "positiveLength rt result ks =
     (bindE (path result (ks @ [''length''])) (greaterThan0 rt) = Inr True)"

section \<open>Concrete parameters\<close>

text \<open>
  An instance of the mapper for evaluating the handlers on concrete requests: the
  ObjectId cast accepts exactly the strings of 24 hexadecimal digits and reads them
  case-insensitively; the schema accepts every document and sets no default.
\<close>

definition isHexDigit :: "char \<Rightarrow> bool" where
  "isHexDigit c = (c \<in> set ''0123456789abcdefABCDEF'')"

definition lowerHex :: "char \<Rightarrow> char" where
  "lowerHex c =
     (if c = CHR ''A'' then CHR ''a'' else if c = CHR ''B'' then CHR ''b''
      else if c = CHR ''C'' then CHR ''c'' else if c = CHR ''D'' then CHR ''d''
      else if c = CHR ''E'' then CHR ''e'' else if c = CHR ''F'' then CHR ''f'' else c)"

definition hexObjectId :: "string \<Rightarrow> objectId option" where
  "hexObjectId s =
     (if length s = 24 \<and> list_all isHexDigit s then Some (ObjectId (map lowerHex s)) else None)"

definition plainOrm :: orm where
  "plainOrm = \<lparr> castObjectId = hexObjectId, validate = (\<lambda>t. True),
                defaultDescription = JUndefined, defaultPriority = JUndefined,
                defaultStatus = JUndefined \<rparr>"

definition alice :: string where
  "alice = ''64b7f0a1c2d3e4f5a6b7c8d1''"

definition bob :: string where
  "bob = ''64b7f0a1c2d3e4f5a6b7c8d2''"

definition taskA :: string where
  "taskA = ''64b7f0a1c2d3e4f5a6b7c8e1''"

definition taskB :: string where
  "taskB = ''64b7f0a1c2d3e4f5a6b7c8e2''"

definition aliceTask :: task where
  "aliceTask = \<lparr> docId = ObjectId taskA, user = ObjectId alice, title = JStr ''write report'',
                 description = JStr ''draft'', priority = JStr ''high'',
                 dueDate = JStr ''2025-12-31'', status = JStr ''pending'',
                 createdAt = 10, updatedAt = 10 \<rparr>"

definition bobTask :: task where
  "bobTask = \<lparr> docId = ObjectId taskB, user = ObjectId bob, title = JStr ''buy milk'',
               description = JUndefined, priority = JStr ''low'', dueDate = JNull,
               status = JStr ''pending'', createdAt = 12, updatedAt = 12 \<rparr>"

text \<open>
  A small runtime. The conversion of a value to a string is JavaScript's: an array joins
  the strings of its elements with commas, \<^verbatim>\<open>null\<close> and \<^verbatim>\<open>undefined\<close> elements
  giving the empty string; an object gives \<^verbatim>\<open>[object Object]\<close>, and throws when it
  has a member \<^verbatim>\<open>toString\<close> of its own, which is no function. The parser knows the
  JSON texts listed and rejects every other string; the conversion of a string to a
  number knows the unsigned decimal numerals.
\<close>

fun decimal :: "nat \<Rightarrow> string" where
  "decimal n =
     (if n < 10 then [''0123456789'' ! n]
      else decimal (n div 10) @ [''0123456789'' ! (n mod 10)])"

fun showValue :: "jsval \<Rightarrow> string option"
  and joinValues :: "jsval list \<Rightarrow> string option" where
  "showValue JUndefined = Some ''undefined''"
| "showValue JNull = Some ''null''"
| "showValue (JBool b) = Some (if b then ''true'' else ''false'')"
| "showValue (JNum n) = Some (if n < 0 then ''-'' @ decimal (nat (- n)) else decimal (nat n))"
| "showValue (JStr s) = Some s"
| "showValue (JArr xs) = joinValues xs"
| "showValue (JObj kvs) =
     (if ''toString'' \<in> set (map fst kvs) then None else Some ''[object Object]'')"
| "joinValues [] = Some []"
| "joinValues (x # xs) =
     (case (if x = JNull \<or> x = JUndefined then Some [] else showValue x) of
        None \<Rightarrow> None
      | Some s \<Rightarrow>
          if xs = [] then Some s
          else (case joinValues xs of None \<Rightarrow> None | Some r \<Rightarrow> Some (s @ '','' @ r)))"

definition miniParse :: "string \<Rightarrow> jsval option" where
  "miniParse s =
     (if s = ''[]'' then Some (JArr [])
      else if s = ''{}'' then Some (JObj [])
      else if s = ''null'' then Some JNull
      else if s = ''false'' then Some (JBool False)
      else if s = ''true'' then Some (JBool True)
      else if s = ''0'' then Some (JNum 0)
      else None)"

definition decimalPositive :: "string \<Rightarrow> bool" where
  "decimalPositive s =
     (s \<noteq> [] \<and> list_all (\<lambda>c. c \<in> set ''0123456789'') s \<and> \<not> list_all (\<lambda>c. c = CHR ''0'') s)"

definition miniRuntime :: runtime where
  "miniRuntime = \<lparr> parseText = miniParse, stringOf = showValue,
                   positiveString = decimalPositive \<rparr>"

text \<open>Sample requests and replies.\<close>

definition reportBody :: body where
  "reportBody =
     [(''title'', JStr ''write report''), (''user'', JStr bob), (''priority'', JStr ''high'')]"

definition newDoc :: task where
  "newDoc = \<lparr> docId = ObjectId taskA, user = ObjectId alice, title = JStr ''write report'',
              description = JUndefined, priority = JStr ''high'', dueDate = JNull,
              status = JUndefined, createdAt = 10, updatedAt = 10 \<rparr>"

definition clearBody :: body where
  "clearBody =
     [(''title'', JStr []), (''description'', JStr []), (''dueDate'', JStr []),
      (''status'', JStr ''completed'')]"

definition clearedTask :: task where
  "clearedTask = \<lparr> docId = ObjectId taskA, user = ObjectId alice, title = JStr ''write report'',
                   description = JStr [], priority = JStr ''high'', dueDate = JNull,
                   status = JStr ''completed'', createdAt = 10, updatedAt = 20 \<rparr>"

text \<open>
  A mapper whose schema has validators and defaults: the title must be a string, the
  priority defaults to \<^verbatim>\<open>medium\<close> and the status to \<^verbatim>\<open>pending\<close>.
\<close>

definition typedOrm :: orm where
  "typedOrm = \<lparr> castObjectId = hexObjectId,
                validate = (\<lambda>d. case title d of JStr s \<Rightarrow> True | _ \<Rightarrow> False),
                defaultDescription = JUndefined, defaultPriority = JStr ''medium'',
                defaultStatus = JStr ''pending'' \<rparr>"

definition urgentBody :: body where
  "urgentBody =
     [(''title'', JStr ''call''), (''priority'', JStr ''urgent''), (''dueDate'', JNum 0)]"

definition urgentDoc :: task where
  "urgentDoc = \<lparr> docId = ObjectId taskA, user = ObjectId alice, title = JStr ''call'',
                 description = JUndefined, priority = JStr ''urgent'', dueDate = JNull,
                 status = JStr ''pending'', createdAt = 10, updatedAt = 10 \<rparr>"


definition always :: "outcome \<Rightarrow> service" where
  "always out = (\<lambda>n req. out)"

definition titleBody :: body where
  "titleBody = [(''mainTaskTitle'', JStr ''plan trip'')]"

definition tripCall :: outbound where
  "tripCall = \<lparr> url = apiUrl ''key'', prompt = promptFor ''plan trip'' \<rparr>"

definition candidate :: jsval where
  "candidate = JObj [(''content'', JObj [(''parts'', JArr [JObj [(''text'', JStr ''[]'')]])])]"

definition arrayReply :: jsval where
  "arrayReply = JObj [(''candidates'', JArr [candidate])]"

definition lengthlessReply :: jsval where
  "lengthlessReply = JObj [(''candidates'', JObj [(''0'', candidate)])]"

definition arrayLikeReply :: jsval where
  "arrayLikeReply = JObj [(''candidates'', JObj [(''length'', JNum 1), (''0'', candidate)])]"

definition jsonReply :: "jsval \<Rightarrow> fetchResponse" where
  "jsonReply j = \<lparr> httpStatus = 200, statusText = ''OK'', bodyText = None, bodyJson = Some j \<rparr>"


section \<open>Auxiliary facts\<close>

lemma alice_id: "castObjectId plainOrm alice = Some (ObjectId alice)"
  by (simp add: plainOrm_def hexObjectId_def alice_def isHexDigit_def lowerHex_def)

lemma bob_id: "castObjectId plainOrm bob = Some (ObjectId bob)"
  by (simp add: plainOrm_def hexObjectId_def bob_def isHexDigit_def lowerHex_def)

lemma taskA_id: "castObjectId plainOrm taskA = Some (ObjectId taskA)"
  by (simp add: plainOrm_def hexObjectId_def taskA_def isHexDigit_def lowerHex_def)

lemma taskB_id: "castObjectId plainOrm taskB = Some (ObjectId taskB)"
  by (simp add: plainOrm_def hexObjectId_def taskB_def isHexDigit_def lowerHex_def)

lemma abc_id: "castObjectId plainOrm ''abc'' = None"
  by (simp add: plainOrm_def hexObjectId_def)

lemma ids_differ: "taskA \<noteq> taskB" "taskB \<noteq> taskA" "alice \<noteq> bob" "bob \<noteq> alice"
  by (simp_all add: taskA_def taskB_def alice_def bob_def)

lemma plainOrm_validates: "validate plainOrm d"
  by (simp add: plainOrm_def)

lemma find_updateOne:
  "find (\<lambda>x. docId x = i) xs = Some t \<Longrightarrow> docId t' = i \<Longrightarrow>
   find (\<lambda>x. docId x = i) (updateOne t' xs) = Some t'"
  by (induction xs) (auto split: if_splits)

lemma find_docId: "find (\<lambda>x. docId x = i) xs = Some t \<Longrightarrow> docId t = i"
  by (induction xs) (auto split: if_splits)

lemma findById_after_update:
  assumes "findById m pid store = Inr (Some t)" and "docId t' = docId t"
  shows "findById m pid (updateOne t' store) = Inr (Some t')"
  using assms
  by (auto simp: findById_def split: option.splits dest: find_docId intro!: find_updateOne)

lemma findById_aliceTask: "findById plainOrm taskA [aliceTask] = Inr (Some aliceTask)"
  by (simp add: findById_def taskA_id) (simp add: aliceTask_def)

lemma aliceTask_owner: "toString (user aliceTask) = alice"
  by (simp add: aliceTask_def)

text \<open>The POST handler, by cases.\<close>

lemma postTask_cases:
  "postTask m newId now uid b store =
    (if \<not> truthy (field b ''title'') then (Response 400 (Msg ''Task title is required''), store)
     else case castObjectId m uid of
       None \<Rightarrow> (Response 500 (Msg ''Server error''), store)
     | Some u \<Rightarrow>
        (let doc = \<lparr> docId = newId, user = u, title = field b ''title'',
                     description = withDefault (defaultDescription m) (field b ''description''),
                     priority = withDefault (defaultPriority m) (field b ''priority''),
                     dueDate = jsOr (field b ''dueDate'') JNull,
                     status = withDefault (defaultStatus m) JUndefined,
                     createdAt = now, updatedAt = now \<rparr>
         in if validate m doc \<and> newId \<notin> set (map docId store)
            then (Response 201 (TaskBody doc), store @ [doc])
            else (Response 500 (Msg ''Server error''), store)))"
  by (simp add: postTask_def newTask_def saveNew_def Let_def split: option.splits)

lemma post_report:
  "postTask plainOrm (ObjectId taskA) 10 alice reportBody [bobTask]
     = (Response 201 (TaskBody newDoc), [bobTask, newDoc])"
  by (simp add: postTask_cases alice_id reportBody_def field_def Let_def)
     (simp add: plainOrm_def withDefault_def jsOr_def newDoc_def bobTask_def ids_differ)

lemma typed_alice_id: "castObjectId typedOrm alice = Some (ObjectId alice)"
  by (simp add: typedOrm_def hexObjectId_def alice_def isHexDigit_def lowerHex_def)

lemma post_urgent:
  "postTask typedOrm (ObjectId taskA) 10 alice urgentBody [bobTask]
     = (Response 201 (TaskBody urgentDoc), [bobTask, urgentDoc])"
  by (simp add: postTask_cases typed_alice_id urgentBody_def field_def Let_def)
     (simp add: typedOrm_def withDefault_def jsOr_def urgentDoc_def bobTask_def ids_differ)


text \<open>The PUT handler on a task of the authenticated user.\<close>

lemma putTask_owned:
  assumes "findById m pid store = Inr (Some t)" and "toString (user t) = uid"
  shows "putTask m now uid pid b store =
     (if validate m (applyUpdate b t)
      then (Response 200 (TaskBody (touch now t (applyUpdate b t))),
            updateOne (touch now t (applyUpdate b t)) store)
      else (Response 500 (Msg ''Server error''), store))"
  using assms by (simp add: putTask_def saveExisting_def Let_def catchById_def)

lemma touch_frame:
  "docId (touch now l t) = docId t"
  "user (touch now l t) = user t"
  "createdAt (touch now l t) = createdAt t"
  "title (touch now l t) = title t"
  "description (touch now l t) = description t"
  "priority (touch now l t) = priority t"
  "dueDate (touch now l t) = dueDate t"
  "status (touch now l t) = status t"
  by (simp_all add: touch_def)

lemma applyUpdate_frame:
  "docId (applyUpdate b t) = docId t"
  "user (applyUpdate b t) = user t"
  "createdAt (applyUpdate b t) = createdAt t"
  by (simp_all add: applyUpdate_def Let_def)

lemma put_clear:
  "putTask plainOrm 20 alice taskA clearBody [aliceTask]
     = (Response 200 (TaskBody clearedTask), [clearedTask])"
  by (simp add: putTask_owned [OF findById_aliceTask aliceTask_owner] plainOrm_validates)
     (simp add: applyUpdate_def clearBody_def field_def jsOr_def Let_def aliceTask_def
        clearedTask_def touch_def)

text \<open>The GET handler, by cases.\<close>

lemma getTasks_cases:
  "getTasks m uid store =
     (case castObjectId m uid of
        None \<Rightarrow> Response 500 (Msg ''Server error'')
      | Some u \<Rightarrow> Response 200 (TaskList (sortNewestFirst (filter (\<lambda>t. user t = u) store))))"
  by (simp add: getTasks_def findByUser_def split: option.splits)


lemma suggest_called:
  assumes "truthy (field b ''mainTaskTitle'')" and "GEMINI_API_KEY env \<noteq> []"
    and "toStringJs rt (field b ''mainTaskTitle'') = Inr t"
  shows "suggest rt svc env b sent =
    (let sent' = sent @ [\<lparr> url = apiUrl (GEMINI_API_KEY env), prompt = promptFor t \<rparr>] in
     case svc (length sent) \<lparr> url = apiUrl (GEMINI_API_KEY env), prompt = promptFor t \<rparr> of
       Rejected \<Rightarrow> (catchSuggest FetchError, sent')
     | Resolved r \<Rightarrow>
        if \<not> ok r then
          (case bodyText r of
             None \<Rightarrow> (catchSuggest FetchError, sent')
           | Some errorText \<Rightarrow>
               (Response (httpStatus r)
                  (MsgDetails (''Gemini API error: '' @ statusText r) (Text errorText)), sent'))
        else
          (case bodyJson r of
             None \<Rightarrow> (catchSuggest SyntaxError, sent')
           | Some result \<Rightarrow>
              (case validText rt result of
                 Inl e \<Rightarrow> (catchSuggest e, sent')
               | Inr None \<Rightarrow>
                   (Response 500 (Msg ''No valid AI suggestions received from the service.''),
                    sent')
               | Inr (Some rawJsonText) \<Rightarrow>
                  (case parseSuggestions rt rawJsonText of
                     Inl e \<Rightarrow>
                       (Response 500
                          (MsgDetails
                             ''Failed to parse AI suggestions (invalid format from Gemini).''
                             (ErrorMessage e)), sent')
                   | Inr suggestions \<Rightarrow> (Response 200 (Suggestions suggestions), sent')))))"
  using assms by (simp add: suggest_def Let_def fetch_def split: outcome.splits)

lemma trip_title:
  "truthy (field titleBody ''mainTaskTitle'')"
  "GEMINI_API_KEY (Some ''key'') \<noteq> []"
  "toStringJs miniRuntime (field titleBody ''mainTaskTitle'') = Inr ''plan trip''"
  by (simp_all add: titleBody_def field_def GEMINI_API_KEY_def)

lemma parseSuggestions_iff:
  "parseSuggestions rt raw = Inr s \<longleftrightarrow> JSON_parse rt raw = Inr s \<and> isArray s"
  by (auto simp: parseSuggestions_def bindE_def split: sum.splits)

text \<open>
  A value whose element \<open>0\<close> has members is an array or an object with a member \<open>0\<close>,
  or a string; a string of one character has no further members.
\<close>

lemma member_0_truthy:
  assumes "member v ''0'' = Inr w" and "member w k = Inr x"
  shows "truthy v"
  using assms by (cases v) (auto split: if_splits list.splits)

text \<open>
  The guard passes exactly when the member chain down to \<open>text\<close> can be read, the text
  is truthy, and both \<open>candidates\<close> and \<open>parts\<close> have a length greater than 0.
\<close>

lemma validText_iff:
  "validText rt result = Inr (Some raw) \<longleftrightarrow>
     hasText result raw \<and> truthy raw
     \<and> positiveLength rt result [''candidates'']
     \<and> positiveLength rt result [''candidates'', ''0'', ''content'', ''parts'']"
proof (cases "member result ''candidates''")
  case (Inl e)
  then show ?thesis
    by (simp add: validText_def hasText_def positiveLength_def bindE_def)
next
  case c: (Inr c)
  show ?thesis
  proof (cases "member c ''0''")
    case (Inl e)
    then show ?thesis
      using c by (cases c) (simp_all add: validText_def hasText_def positiveLength_def bindE_def)
  next
    case c0: (Inr c0)
    show ?thesis
    proof (cases "member c0 ''content''")
      case (Inl e)
      then show ?thesis
        using c c0
        by (auto simp add: validText_def hasText_def positiveLength_def bindE_def
              split: sum.splits)
    next
      case content: (Inr content)
      have tc: "truthy c"
        using member_0_truthy [OF c0 content] .
      show ?thesis
      proof (cases "member content ''parts''")
        case (Inl e)
        then show ?thesis
          using c c0 content
          by (cases content)
             (auto simp add: validText_def hasText_def positiveLength_def bindE_def
                split: sum.splits)
      next
        case parts: (Inr parts)
        show ?thesis
        proof (cases "member parts ''0''")
          case (Inl e)
          then show ?thesis
            using c c0 content parts
            by (cases parts)
               (auto simp add: validText_def hasText_def positiveLength_def bindE_def
                  split: sum.splits)
        next
          case p0: (Inr p0)
          show ?thesis
          proof (cases "member p0 ''text''")
            case (Inl e)
            then show ?thesis
              using c c0 content parts p0
              by (auto simp add: validText_def hasText_def positiveLength_def bindE_def
                    split: sum.splits)
          next
            case t: (Inr t)
            have tp: "truthy parts"
              using member_0_truthy [OF p0 t] .
            have tcont: "truthy t \<Longrightarrow> truthy content"
              using parts p0 t
              by (cases content; cases parts) (auto split: if_splits list.splits)
            show ?thesis
              using c c0 content parts p0 t tc tp tcont
              by (auto simp add: validText_def hasText_def positiveLength_def bindE_def
                    split: sum.splits)
          qed
        qed
      qed
    qed
  qed
qed


lemma suggest_arrayReply:
  "suggest miniRuntime (always (Resolved (jsonReply arrayReply))) (Some ''key'') titleBody []
     = (Response 200 (Suggestions (JArr [])), [tripCall])"
  by (simp add: suggest_called [OF trip_title] Let_def always_def)
     (simp add: jsonReply_def ok_def tripCall_def GEMINI_API_KEY_def arrayReply_def
        candidate_def validText_def bindE_def parseSuggestions_def JSON_parse_def
        miniRuntime_def miniParse_def)

section \<open>Ownership and missing tasks\<close>

text \<open>
  C1. A PUT or DELETE request for a task that exists but whose owner is not the
  authenticated user is answered 401 with the message "Not authorized", and the
  collection stays as it was.
\<close>

theorem foreign_task_not_authorized:
  assumes "findById m pid store = Inr (Some t)" and "toString (user t) \<noteq> uid"
  shows "putTask m now uid pid b store = (Response 401 (Msg ''Not authorized''), store)
       \<and> deleteTask m uid pid store = (Response 401 (Msg ''Not authorized''), store)"
  using assms by (simp add: putTask_def deleteTask_def)

theorem foreign_task_not_authorized_witness:
  "findById plainOrm taskA [aliceTask, bobTask] = Inr (Some aliceTask)
   \<and> toString (user aliceTask) \<noteq> bob
   \<and> putTask plainOrm 20 bob taskA [(''title'', JStr ''x'')] [aliceTask, bobTask]
       = (Response 401 (Msg ''Not authorized''), [aliceTask, bobTask])
   \<and> deleteTask plainOrm bob taskA [aliceTask, bobTask]
       = (Response 401 (Msg ''Not authorized''), [aliceTask, bobTask])"
proof -
  have a: "findById plainOrm taskA [aliceTask, bobTask] = Inr (Some aliceTask)"
    by (simp add: findById_def taskA_id) (simp add: aliceTask_def)
  have b: "toString (user aliceTask) \<noteq> bob"
    by (simp add: aliceTask_def alice_def bob_def)
  show ?thesis
    using a b foreign_task_not_authorized [OF a b] by simp
qed

text \<open>
  C9, as the claim states it, fails: an id that is no ObjectId string matches no stored
  task, and the PUT and DELETE handlers answer it 400 "Invalid task ID", not 404.
\<close>

theorem malformed_id_is_400:
  "putTask plainOrm 20 alice ''abc'' [] [] = (Response 400 (Msg ''Invalid task ID''), [])
   \<and> deleteTask plainOrm alice ''abc'' [] = (Response 400 (Msg ''Invalid task ID''), [])"
  by (simp add: putTask_def deleteTask_def findById_def abc_id catchById_def)

text \<open>
  C9, amended. A PUT or DELETE request whose id is an ObjectId string that matches no
  stored task is answered 404 "Task not found"; one whose id is no ObjectId string is
  answered 400 "Invalid task ID". In both cases the collection stays as it was.
\<close>

theorem missing_task_404_malformed_400:
  "(castObjectId m pid = Some i \<and> find (\<lambda>t. docId t = i) store = None \<longrightarrow>
      putTask m now uid pid b store = (Response 404 (Msg ''Task not found''), store)
      \<and> deleteTask m uid pid store = (Response 404 (Msg ''Task not found''), store))
   \<and> (castObjectId m pid = None \<longrightarrow>
      putTask m now uid pid b store = (Response 400 (Msg ''Invalid task ID''), store)
      \<and> deleteTask m uid pid store = (Response 400 (Msg ''Invalid task ID''), store))"
  by (simp add: putTask_def deleteTask_def findById_def catchById_def)

theorem missing_task_404_malformed_400_witness:
  "castObjectId plainOrm taskB = Some (ObjectId taskB)
   \<and> find (\<lambda>t. docId t = ObjectId taskB) [aliceTask] = None
   \<and> putTask plainOrm 20 bob taskB [] [aliceTask]
       = (Response 404 (Msg ''Task not found''), [aliceTask])
   \<and> deleteTask plainOrm bob taskB [aliceTask]
       = (Response 404 (Msg ''Task not found''), [aliceTask])
   \<and> castObjectId plainOrm ''abc'' = None
   \<and> putTask plainOrm 20 bob ''abc'' [] [aliceTask]
       = (Response 400 (Msg ''Invalid task ID''), [aliceTask])
   \<and> deleteTask plainOrm bob ''abc'' [aliceTask]
       = (Response 400 (Msg ''Invalid task ID''), [aliceTask])"
proof -
  have a: "find (\<lambda>t. docId t = ObjectId taskB) [aliceTask] = None"
    by (simp add: aliceTask_def ids_differ)
  show ?thesis
    using a taskB_id abc_id
      missing_task_404_malformed_400 [of plainOrm taskB "ObjectId taskB" "[aliceTask]" 20 bob "[]"]
      missing_task_404_malformed_400 [of plainOrm "''abc''" "ObjectId taskB" "[aliceTask]" 20 bob "[]"]
    by simp
qed

section \<open>Creating and listing\<close>

text \<open>
  C2. When a POST request succeeds (201), the task created and returned is the one
  appended to the collection, and its owner is the ObjectId of the authenticated
  user's id. A member \<open>user\<close> in the request body changes nothing.
\<close>

theorem created_task_owned_by_requester:
  assumes "statusCode (fst (postTask m newId now uid b store)) = 201"
  shows "\<exists>t. postTask m newId now uid b store = (Response 201 (TaskBody t), store @ [t])
           \<and> castObjectId m uid = Some (user t)
           \<and> postTask m newId now uid ((''user'', v) # b) store
               = (Response 201 (TaskBody t), store @ [t])"
proof -
  have f: "field ((''user'', v) # b) k = field b k" if "k \<noteq> ''user''" for k
    using that by (simp add: field_def)
  have same: "postTask m newId now uid ((''user'', v) # b) store
                = postTask m newId now uid b store"
    by (simp add: postTask_def f)
  show ?thesis
    using assms unfolding same
    by (auto simp: postTask_cases Let_def split: if_splits option.splits)
qed

theorem created_task_owned_by_requester_witness:
  "statusCode (fst (postTask plainOrm (ObjectId taskA) 10 alice reportBody [bobTask])) = 201
   \<and> (\<exists>t. postTask plainOrm (ObjectId taskA) 10 alice reportBody [bobTask]
             = (Response 201 (TaskBody t), [bobTask] @ [t])
           \<and> castObjectId plainOrm alice = Some (user t)
           \<and> postTask plainOrm (ObjectId taskA) 10 alice ((''user'', JStr bob) # reportBody)
               [bobTask] = (Response 201 (TaskBody t), [bobTask] @ [t]))"
proof -
  have a: "statusCode (fst (postTask plainOrm (ObjectId taskA) 10 alice reportBody [bobTask]))
             = 201"
    by (simp add: post_report)
  show ?thesis
    using a created_task_owned_by_requester [OF a] by simp
qed

text \<open>
  C3. The tasks in the response to a GET request are stored tasks of the authenticated
  user; when the user's id is an ObjectId string the response is 200 and lists exactly
  the tasks owned by that ObjectId, each as often as it is stored; and two collections
  with the same tasks of this user get the same response.
\<close>

theorem get_discloses_own_tasks_only:
  "set (tasksOf (getTasks m uid store)) \<subseteq> {t \<in> set store. castObjectId m uid = Some (user t)}
   \<and> (castObjectId m uid = Some u \<longrightarrow>
        (\<exists>ts. getTasks m uid store = Response 200 (TaskList ts)
             \<and> mset ts = mset (filter (\<lambda>t. user t = u) store)))
   \<and> ((\<forall>u. castObjectId m uid = Some u \<longrightarrow>
          filter (\<lambda>t. user t = u) store = filter (\<lambda>t. user t = u) store2) \<longrightarrow>
        getTasks m uid store = getTasks m uid store2)"
  by (auto simp: getTasks_cases sortNewestFirst_def split: option.splits)

theorem get_discloses_own_tasks_only_witness:
  "castObjectId plainOrm alice = Some (ObjectId alice)
   \<and> filter (\<lambda>t. user t = ObjectId alice) [bobTask, aliceTask]
       = filter (\<lambda>t. user t = ObjectId alice) [aliceTask]
   \<and> getTasks plainOrm alice [bobTask, aliceTask] = getTasks plainOrm alice [aliceTask]
   \<and> (\<exists>ts. getTasks plainOrm alice [bobTask, aliceTask] = Response 200 (TaskList ts)
          \<and> mset ts = mset (filter (\<lambda>t. user t = ObjectId alice) [bobTask, aliceTask]))
   \<and> set (tasksOf (getTasks plainOrm alice [bobTask, aliceTask]))
       \<subseteq> {t \<in> set [bobTask, aliceTask]. castObjectId plainOrm alice = Some (user t)}"
proof -
  have a: "filter (\<lambda>t. user t = ObjectId alice) [bobTask, aliceTask]
             = filter (\<lambda>t. user t = ObjectId alice) [aliceTask]"
    by (simp add: bobTask_def aliceTask_def ids_differ)
  have b: "\<forall>u. castObjectId plainOrm alice = Some u \<longrightarrow>
             filter (\<lambda>t. user t = u) [bobTask, aliceTask] = filter (\<lambda>t. user t = u) [aliceTask]"
    using a by (simp add: alice_id)
  show ?thesis
    using a b alice_id
      get_discloses_own_tasks_only
        [of plainOrm alice "[bobTask, aliceTask]" "ObjectId alice" "[aliceTask]"]
    by blast
qed

text \<open>
  C4. A POST request whose \<open>dueDate\<close> is absent or falsy succeeds (201) exactly when
  its title is truthy and the store accepts the document that the handler builds with
  \<open>dueDate\<close> null; the task it then stores and returns has \<open>dueDate\<close> null, and a
  request that does not succeed stores nothing. A PUT request on a task of the
  authenticated user whose \<open>dueDate\<close> is the empty string succeeds when the store
  accepts the document, and then the stored task has \<open>dueDate\<close> null; when the store
  rejects it the collection stays as it was.
\<close>

theorem due_date_is_nullable:
  "(\<not> truthy (field b ''dueDate'') \<longrightarrow>
      (statusCode (fst (postTask m newId now uid b store)) = 201 \<longleftrightarrow>
         truthy (field b ''title'')
         \<and> (\<exists>doc. newTask m newId now uid (field b ''title'') (field b ''description'')
                     (field b ''priority'') JNull = Inr doc
                 \<and> validate m doc \<and> newId \<notin> set (map docId store)))
      \<and> (\<forall>doc. truthy (field b ''title'')
               \<and> newTask m newId now uid (field b ''title'') (field b ''description'')
                     (field b ''priority'') JNull = Inr doc
               \<and> validate m doc \<and> newId \<notin> set (map docId store) \<longrightarrow>
             postTask m newId now uid b store = (Response 201 (TaskBody doc), store @ [doc])
             \<and> dueDate doc = JNull)
      \<and> (statusCode (fst (postTask m newId now uid b store)) = 201 \<longrightarrow>
         (\<exists>t. postTask m newId now uid b store = (Response 201 (TaskBody t), store @ [t])
              \<and> dueDate t = JNull))
      \<and> (statusCode (fst (postTask m newId now uid b store)) \<noteq> 201 \<longrightarrow>
           snd (postTask m newId now uid b store) = store))
   \<and> (findById m pid store = Inr (Some t0) \<and> toString (user t0) = uid
        \<and> field b ''dueDate'' = JStr [] \<longrightarrow>
      (statusCode (fst (putTask m now uid pid b store)) = 200 \<longrightarrow>
         (\<exists>t. putTask m now uid pid b store = (Response 200 (TaskBody t), updateOne t store)
              \<and> findById m pid (updateOne t store) = Inr (Some t)
              \<and> dueDate t = JNull))
      \<and> (statusCode (fst (putTask m now uid pid b store)) \<noteq> 200 \<longrightarrow>
           snd (putTask m now uid pid b store) = store)
      \<and> (validate m (applyUpdate b t0) \<longrightarrow>
           statusCode (fst (putTask m now uid pid b store)) = 200))"
proof -
  have succeeds: "statusCode (fst (postTask m newId now uid b store)) = 201 \<longleftrightarrow>
         truthy (field b ''title'')
         \<and> (\<exists>doc. newTask m newId now uid (field b ''title'') (field b ''description'')
                     (field b ''priority'') JNull = Inr doc
                 \<and> validate m doc \<and> newId \<notin> set (map docId store))"
    if "\<not> truthy (field b ''dueDate'')"
    using that
    by (auto simp: postTask_cases newTask_def Let_def jsOr_def split: option.splits)
  have stored: "\<forall>doc. truthy (field b ''title'')
               \<and> newTask m newId now uid (field b ''title'') (field b ''description'')
                     (field b ''priority'') JNull = Inr doc
               \<and> validate m doc \<and> newId \<notin> set (map docId store) \<longrightarrow>
             postTask m newId now uid b store = (Response 201 (TaskBody doc), store @ [doc])
             \<and> dueDate doc = JNull"
    if "\<not> truthy (field b ''dueDate'')"
    using that
    by (auto simp: postTask_cases newTask_def Let_def jsOr_def split: option.splits)
  have post: "(statusCode (fst (postTask m newId now uid b store)) = 201 \<longrightarrow>
         (\<exists>t. postTask m newId now uid b store = (Response 201 (TaskBody t), store @ [t])
              \<and> dueDate t = JNull))
      \<and> (statusCode (fst (postTask m newId now uid b store)) \<noteq> 201 \<longrightarrow>
           snd (postTask m newId now uid b store) = store)"
    if "\<not> truthy (field b ''dueDate'')"
    using that by (auto simp: postTask_cases Let_def jsOr_def split: option.splits)
  have due: "dueDate (applyUpdate b t0) = JNull" if "field b ''dueDate'' = JStr []"
    using that by (simp add: applyUpdate_def Let_def)
  have put: "(statusCode (fst (putTask m now uid pid b store)) = 200 \<longrightarrow>
         (\<exists>t. putTask m now uid pid b store = (Response 200 (TaskBody t), updateOne t store)
              \<and> findById m pid (updateOne t store) = Inr (Some t)
              \<and> dueDate t = JNull))
      \<and> (statusCode (fst (putTask m now uid pid b store)) \<noteq> 200 \<longrightarrow>
           snd (putTask m now uid pid b store) = store)
      \<and> (validate m (applyUpdate b t0) \<longrightarrow>
           statusCode (fst (putTask m now uid pid b store)) = 200)"
    if h: "findById m pid store = Inr (Some t0)" "toString (user t0) = uid"
      "field b ''dueDate'' = JStr []"
    using findById_after_update [OF h(1), of "touch now t0 (applyUpdate b t0)"]
      due [OF h(3)]
    by (simp add: putTask_owned [OF h(1) h(2)] applyUpdate_frame touch_frame)
  show ?thesis
    using succeeds stored post put by blast
qed

theorem due_date_is_nullable_witness:
  "\<not> truthy (field reportBody ''dueDate'')
   \<and> statusCode (fst (postTask plainOrm (ObjectId taskA) 10 alice reportBody [bobTask])) = 201
   \<and> (\<exists>t. postTask plainOrm (ObjectId taskA) 10 alice reportBody [bobTask]
             = (Response 201 (TaskBody t), [bobTask] @ [t]) \<and> dueDate t = JNull)
   \<and> map_of urgentBody ''dueDate'' = Some (JNum 0)
   \<and> \<not> truthy (field urgentBody ''dueDate'')
   \<and> truthy (field urgentBody ''title'')
   \<and> newTask typedOrm (ObjectId taskA) 10 alice (field urgentBody ''title'')
        (field urgentBody ''description'') (field urgentBody ''priority'') JNull = Inr urgentDoc
   \<and> validate typedOrm urgentDoc
   \<and> ObjectId taskA \<notin> set (map docId [bobTask])
   \<and> statusCode (fst (postTask typedOrm (ObjectId taskA) 10 alice urgentBody [bobTask])) = 201
   \<and> postTask typedOrm (ObjectId taskA) 10 alice urgentBody [bobTask]
       = (Response 201 (TaskBody urgentDoc), [bobTask] @ [urgentDoc])
   \<and> dueDate urgentDoc = JNull
   \<and> findById plainOrm taskA [aliceTask] = Inr (Some aliceTask)
   \<and> toString (user aliceTask) = alice
   \<and> field clearBody ''dueDate'' = JStr []
   \<and> validate plainOrm (applyUpdate clearBody aliceTask)
   \<and> statusCode (fst (putTask plainOrm 20 alice taskA clearBody [aliceTask])) = 200
   \<and> (\<exists>t. putTask plainOrm 20 alice taskA clearBody [aliceTask]
             = (Response 200 (TaskBody t), updateOne t [aliceTask])
           \<and> findById plainOrm taskA (updateOne t [aliceTask]) = Inr (Some t)
           \<and> dueDate t = JNull)"
proof -
  have a: "\<not> truthy (field reportBody ''dueDate'')"
    by (simp add: reportBody_def field_def)
  have b: "statusCode (fst (postTask plainOrm (ObjectId taskA) 10 alice reportBody [bobTask]))
             = 201"
    by (simp add: post_report)
  have c: "field clearBody ''dueDate'' = JStr []"
    by (simp add: clearBody_def field_def)
  have d: "statusCode (fst (putTask plainOrm 20 alice taskA clearBody [aliceTask])) = 200"
    by (simp add: put_clear)
  have e: "map_of urgentBody ''dueDate'' = Some (JNum 0)"
    "\<not> truthy (field urgentBody ''dueDate'')" "truthy (field urgentBody ''title'')"
    by (simp_all add: urgentBody_def field_def)
  have f: "newTask typedOrm (ObjectId taskA) 10 alice (field urgentBody ''title'')
        (field urgentBody ''description'') (field urgentBody ''priority'') JNull = Inr urgentDoc"
    by (simp add: newTask_def typed_alice_id)
       (simp add: urgentBody_def field_def typedOrm_def withDefault_def urgentDoc_def)
  have g: "validate typedOrm urgentDoc"
    by (simp add: typedOrm_def urgentDoc_def)
  have i: "ObjectId taskA \<notin> set (map docId [bobTask])"
    by (simp add: bobTask_def ids_differ)
  show ?thesis
    using a b c d e f g i findById_aliceTask aliceTask_owner plainOrm_validates
      due_date_is_nullable [of reportBody plainOrm "ObjectId taskA" 10 alice "[bobTask]"]
      due_date_is_nullable [of urgentBody typedOrm "ObjectId taskA" 10 alice "[bobTask]"]
      due_date_is_nullable [of clearBody plainOrm _ 20 alice "[aliceTask]" taskA aliceTask]
    by blast
qed

section \<open>Updating\<close>




text \<open>
  C8. After a PUT request on an existing task of the authenticated user, the task
  stored under the id has the owner and the creation time it had; its title,
  priority and status are the prior ones when the body has no such member or has the
  empty string there; its description and due date are the prior ones when the body
  has no such member; and an empty-string description, when the store accepts the
  document, is the description stored and returned.
\<close>

theorem put_keeps_what_the_body_omits:
  assumes "findById m pid store = Inr (Some t)" and "toString (user t) = uid"
  shows "\<exists>t'. findById m pid (snd (putTask m now uid pid b store)) = Inr (Some t')
     \<and> user t' = user t \<and> createdAt t' = createdAt t
     \<and> (map_of b ''title'' = None \<or> map_of b ''title'' = Some (JStr []) \<longrightarrow>
          title t' = title t)
     \<and> (map_of b ''priority'' = None \<or> map_of b ''priority'' = Some (JStr []) \<longrightarrow>
          priority t' = priority t)
     \<and> (map_of b ''status'' = None \<or> map_of b ''status'' = Some (JStr []) \<longrightarrow>
          status t' = status t)
     \<and> (map_of b ''description'' = None \<longrightarrow> description t' = description t)
     \<and> (map_of b ''dueDate'' = None \<longrightarrow> dueDate t' = dueDate t)
     \<and> (map_of b ''description'' = Some (JStr []) \<and> validate m (applyUpdate b t) \<longrightarrow>
          fst (putTask m now uid pid b store) = Response 200 (TaskBody t')
          \<and> description t' = JStr [])"
proof (cases "validate m (applyUpdate b t)")
  case False
  then show ?thesis
    using assms by (simp add: putTask_owned [OF assms])
next
  case True
  let ?t' = "touch now t (applyUpdate b t)"
  have "findById m pid (updateOne ?t' store) = Inr (Some ?t')"
    using findById_after_update [OF assms(1), of ?t']
    by (simp add: applyUpdate_frame touch_frame)
  moreover have "user ?t' = user t" "createdAt ?t' = createdAt t"
    by (simp_all add: applyUpdate_frame touch_frame)
  moreover have "map_of b ''title'' = None \<or> map_of b ''title'' = Some (JStr []) \<longrightarrow>
      title ?t' = title t"
    by (auto simp: touch_frame applyUpdate_def Let_def field_def jsOr_def)
  moreover have "map_of b ''priority'' = None \<or> map_of b ''priority'' = Some (JStr []) \<longrightarrow>
      priority ?t' = priority t"
    by (auto simp: touch_frame applyUpdate_def Let_def field_def jsOr_def)
  moreover have "map_of b ''status'' = None \<or> map_of b ''status'' = Some (JStr []) \<longrightarrow>
      status ?t' = status t"
    by (auto simp: touch_frame applyUpdate_def Let_def field_def jsOr_def)
  moreover have "map_of b ''description'' = None \<longrightarrow> description ?t' = description t"
    by (auto simp: touch_frame applyUpdate_def Let_def field_def jsOr_def)
  moreover have "map_of b ''dueDate'' = None \<longrightarrow> dueDate ?t' = dueDate t"
    by (auto simp: touch_frame applyUpdate_def Let_def field_def jsOr_def)
  moreover have "map_of b ''description'' = Some (JStr []) \<longrightarrow> description ?t' = JStr []"
    by (auto simp: touch_frame applyUpdate_def Let_def field_def jsOr_def)
  ultimately show ?thesis
    using True by (simp add: putTask_owned [OF assms])
qed

theorem put_keeps_what_the_body_omits_witness:
  "findById plainOrm taskA [aliceTask] = Inr (Some aliceTask)
   \<and> toString (user aliceTask) = alice
   \<and> map_of clearBody ''title'' = Some (JStr [])
   \<and> map_of clearBody ''priority'' = None
   \<and> map_of clearBody ''description'' = Some (JStr [])
   \<and> validate plainOrm (applyUpdate clearBody aliceTask)
   \<and> (\<exists>t'. findById plainOrm taskA (snd (putTask plainOrm 20 alice taskA clearBody [aliceTask]))
             = Inr (Some t')
          \<and> fst (putTask plainOrm 20 alice taskA clearBody [aliceTask])
             = Response 200 (TaskBody t')
          \<and> user t' = user aliceTask \<and> createdAt t' = createdAt aliceTask
          \<and> title t' = title aliceTask \<and> priority t' = priority aliceTask
          \<and> description t' = JStr [])"
proof -
  have a: "map_of clearBody ''title'' = Some (JStr [])"
    "map_of clearBody ''priority'' = None"
    "map_of clearBody ''description'' = Some (JStr [])"
    by (simp_all add: clearBody_def)
  show ?thesis
    using a findById_aliceTask aliceTask_owner plainOrm_validates
      put_keeps_what_the_body_omits
        [OF findById_aliceTask aliceTask_owner, of 20 clearBody]
    by auto
qed

section \<open>Suggestions\<close>

text \<open>
  C10. When the body has no truthy \<open>mainTaskTitle\<close> the handler answers 400; when it
  has one and the environment's \<open>GEMINI_API_KEY\<close> is unset or empty, the handler
  answers 500 with the message that the service is not configured. In both cases the
  log of outbound calls is the one before the request: no call is made.
\<close>

theorem no_call_without_title_or_key:
  "(\<not> truthy (field b ''mainTaskTitle'') \<longrightarrow>
      suggest rt svc env b sent
        = (Response 400 (Msg ''Main task title is required for suggestions.''), sent))
   \<and> (truthy (field b ''mainTaskTitle'') \<and> (env = None \<or> env = Some []) \<longrightarrow>
      suggest rt svc env b sent
        = (Response 500 (Msg ''AI service not configured: GEMINI_API_KEY is missing.''), sent))
   \<and> (\<not> truthy (field b ''mainTaskTitle'') \<or> env = None \<or> env = Some [] \<longrightarrow>
      snd (suggest rt svc env b sent) = sent)"
  by (auto simp: suggest_def Let_def GEMINI_API_KEY_def)

theorem no_call_without_title_or_key_witness:
  "\<not> truthy (field [] ''mainTaskTitle'')
   \<and> suggest miniRuntime (always (Resolved (jsonReply arrayReply))) (Some ''key'') [] []
       = (Response 400 (Msg ''Main task title is required for suggestions.''), [])
   \<and> truthy (field titleBody ''mainTaskTitle'')
   \<and> suggest miniRuntime (always (Resolved (jsonReply arrayReply))) (Some []) titleBody []
       = (Response 500 (Msg ''AI service not configured: GEMINI_API_KEY is missing.''), [])
   \<and> snd (suggest miniRuntime (always (Resolved (jsonReply arrayReply))) None titleBody []) = []"
proof -
  have a: "\<not> truthy (field [] ''mainTaskTitle'')"
    by (simp add: field_def)
  show ?thesis
    using a trip_title(1)
      no_call_without_title_or_key
        [of "[]" miniRuntime "always (Resolved (jsonReply arrayReply))" "Some ''key''" "[]"]
      no_call_without_title_or_key
        [of titleBody miniRuntime "always (Resolved (jsonReply arrayReply))" "Some []" "[]"]
      no_call_without_title_or_key
        [of titleBody miniRuntime "always (Resolved (jsonReply arrayReply))" None "[]"]
    by simp
qed



text \<open>
  C6, as the claim states it, fails. Both replies below hold the text \<open>[]\<close> at
  \<open>candidates[0].content.parts[0].text\<close>, and the text parses to an array; they
  differ only in a member \<open>length\<close> of \<open>candidates\<close>. The handler answers the one
  without it 500 and the one with it 200: the answer does not depend on the text and
  its parsing alone.
\<close>

theorem length_decides_the_answer:
  "hasText lengthlessReply (JStr ''[]'')
   \<and> hasText arrayLikeReply (JStr ''[]'')
   \<and> JSON_parse miniRuntime (JStr ''[]'') = Inr (JArr [])
   \<and> fst (suggest miniRuntime (always (Resolved (jsonReply lengthlessReply))) (Some ''key'')
            titleBody [])
       = Response 500 (Msg ''No valid AI suggestions received from the service.'')
   \<and> fst (suggest miniRuntime (always (Resolved (jsonReply arrayLikeReply))) (Some ''key'')
            titleBody [])
       = Response 200 (Suggestions (JArr []))"
  by (simp add: hasText_def lengthlessReply_def arrayLikeReply_def candidate_def bindE_def
        JSON_parse_def miniRuntime_def miniParse_def suggest_def titleBody_def field_def
        GEMINI_API_KEY_def fetch_def always_def jsonReply_def ok_def validText_def
        parseSuggestions_def)

text \<open>
  C6, amended. When the handler has called the service and the reply is OK, it answers
  200 with the suggestions \<open>s\<close> exactly when the reply's JSON holds a truthy text at
  \<open>candidates[0].content.parts[0].text\<close>, both \<open>candidates\<close> and
  \<open>candidates[0].content.parts\<close> have a length greater than 0, and \<open>JSON.parse\<close>
  of the text is the array \<open>s\<close>. In every other case of an OK reply it answers 500
  with a message.
\<close>

theorem suggestions_iff_text_lengths_array:
  assumes "truthy (field b ''mainTaskTitle'')" and "GEMINI_API_KEY env \<noteq> []"
    and "toStringJs rt (field b ''mainTaskTitle'') = Inr t"
    and "svc (length sent) \<lparr> url = apiUrl (GEMINI_API_KEY env), prompt = promptFor t \<rparr>
           = Resolved r"
    and "ok r"
  shows "(fst (suggest rt svc env b sent) = Response 200 (Suggestions s) \<longleftrightarrow>
           (\<exists>result raw. bodyJson r = Some result \<and> hasText result raw \<and> truthy raw
              \<and> positiveLength rt result [''candidates'']
              \<and> positiveLength rt result [''candidates'', ''0'', ''content'', ''parts'']
              \<and> JSON_parse rt raw = Inr s \<and> isArray s))
       \<and> ((\<forall>s'. fst (suggest rt svc env b sent) \<noteq> Response 200 (Suggestions s')) \<longrightarrow>
            statusCode (fst (suggest rt svc env b sent)) = 500
            \<and> isMessage (payload (fst (suggest rt svc env b sent))))"
proof -
  have fst_eq: "fst (suggest rt svc env b sent) =
     (case bodyJson r of
        None \<Rightarrow> catchSuggest SyntaxError
      | Some result \<Rightarrow>
         (case validText rt result of
            Inl e \<Rightarrow> catchSuggest e
          | Inr None \<Rightarrow> Response 500 (Msg ''No valid AI suggestions received from the service.'')
          | Inr (Some raw) \<Rightarrow>
             (case parseSuggestions rt raw of
                Inl e \<Rightarrow>
                  Response 500
                    (MsgDetails ''Failed to parse AI suggestions (invalid format from Gemini).''
                       (ErrorMessage e))
              | Inr suggestions \<Rightarrow> Response 200 (Suggestions suggestions))))"
    using assms(4,5)
    by (simp add: suggest_called [OF assms(1,2,3)] Let_def split: option.splits sum.splits)
  have a: "fst (suggest rt svc env b sent) = Response 200 (Suggestions s) \<longleftrightarrow>
           (\<exists>result raw. bodyJson r = Some result \<and> validText rt result = Inr (Some raw)
              \<and> parseSuggestions rt raw = Inr s)"
    unfolding fst_eq
    by (auto simp: catchSuggest_def split: option.splits sum.splits)
  have b: "(\<forall>s'. fst (suggest rt svc env b sent) \<noteq> Response 200 (Suggestions s')) \<longrightarrow>
            statusCode (fst (suggest rt svc env b sent)) = 500
            \<and> isMessage (payload (fst (suggest rt svc env b sent)))"
    unfolding fst_eq
    by (auto simp: catchSuggest_def isMessage_def split: option.splits sum.splits)
  show ?thesis
    using a b by (simp add: validText_iff parseSuggestions_iff conj_assoc)
qed

theorem suggestions_iff_text_lengths_array_witness:
  "truthy (field titleBody ''mainTaskTitle'') \<and> GEMINI_API_KEY (Some ''key'') \<noteq> []
   \<and> toStringJs miniRuntime (field titleBody ''mainTaskTitle'') = Inr ''plan trip''
   \<and> always (Resolved (jsonReply arrayReply)) (length ([] :: outbound list))
        \<lparr> url = apiUrl (GEMINI_API_KEY (Some ''key'')), prompt = promptFor ''plan trip'' \<rparr>
       = Resolved (jsonReply arrayReply)
   \<and> ok (jsonReply arrayReply)
   \<and> fst (suggest miniRuntime (always (Resolved (jsonReply arrayReply))) (Some ''key'')
            titleBody [])
       = Response 200 (Suggestions (JArr []))
   \<and> (\<exists>result raw. bodyJson (jsonReply arrayReply) = Some result \<and> hasText result raw
          \<and> truthy raw
          \<and> positiveLength miniRuntime result [''candidates'']
          \<and> positiveLength miniRuntime result [''candidates'', ''0'', ''content'', ''parts'']
          \<and> JSON_parse miniRuntime raw = Inr (JArr []) \<and> isArray (JArr []))"
proof -
  have a: "always (Resolved (jsonReply arrayReply)) (length ([] :: outbound list))
        \<lparr> url = apiUrl (GEMINI_API_KEY (Some ''key'')), prompt = promptFor ''plan trip'' \<rparr>
       = Resolved (jsonReply arrayReply)"
    by (simp add: always_def)
  have b: "ok (jsonReply arrayReply)"
    by (simp add: ok_def jsonReply_def)
  have c: "fst (suggest miniRuntime (always (Resolved (jsonReply arrayReply))) (Some ''key'')
            titleBody []) = Response 200 (Suggestions (JArr []))"
    by (simp add: suggest_arrayReply)
  show ?thesis
    using a b c trip_title
      suggestions_iff_text_lengths_array
        [where svc = "always (Resolved (jsonReply arrayReply))" and sent = "[]",
         OF trip_title a b, of "JArr []"]
    by blast
qed

end
